theory Spec2Isabelle
  imports Main
begin

section \<open>Python values and builtins used by SatTracker.py\<close>

text \<open>
  A Python \<open>str\<close> is modelled as the list of its code points, restricted to
  U+0000..U+00FF: one \<open>char\<close> per code point (so \<open>CHR 0xB0\<close> is the degree sign
  and \<open>CHR 0xB2\<close> is SUPERSCRIPT TWO). The character tables below are the complete
  tables of Python's \<open>str.isspace\<close>, \<open>str.isdigit\<close>, \<open>str.isdecimal\<close> and
  \<open>str.lower\<close> on that range.
\<close>

definition isspace_char :: "char \<Rightarrow> bool" where
  "isspace_char c =
     (let n = (of_char c :: nat)
      in (9 \<le> n \<and> n \<le> 13) \<or> (28 \<le> n \<and> n \<le> 32) \<or> n = 133 \<or> n = 160)"

definition isdecimal_char :: "char \<Rightarrow> bool" where
  "isdecimal_char c = (let n = (of_char c :: nat) in 48 \<le> n \<and> n \<le> 57)"

definition isdigit_char :: "char \<Rightarrow> bool" where
  "isdigit_char c =
     (let n = (of_char c :: nat)
      in (48 \<le> n \<and> n \<le> 57) \<or> n = 178 \<or> n = 179 \<or> n = 185)"

definition lower_char :: "char \<Rightarrow> char" where
  "lower_char c =
     (let n = (of_char c :: nat)
      in if (65 \<le> n \<and> n \<le> 90) \<or> (192 \<le> n \<and> n \<le> 214) \<or> (216 \<le> n \<and> n \<le> 222)
         then char_of (n + 32) else c)"

text \<open>\<open>str.strip()\<close> with no argument: leading and trailing whitespace removed.\<close>

definition py_strip :: "string \<Rightarrow> string" where
  "py_strip s = rev (dropWhile isspace_char (rev (dropWhile isspace_char s)))"

definition py_lower :: "string \<Rightarrow> string" where
  "py_lower s = map lower_char s"

text \<open>\<open>str.isdigit()\<close>: at least one character, and every character is a digit.\<close>

definition py_isdigit :: "string \<Rightarrow> bool" where
  "py_isdigit s = (s \<noteq> [] \<and> list_all isdigit_char s)"

text \<open>
  The exception classes that can occur; \<open>HTTPError\<close>, \<open>ConnectionError\<close>,
  \<open>Timeout\<close>, \<open>ConnectTimeout\<close>, \<open>ReadTimeout\<close>, \<open>InvalidJSONError\<close>,
  \<open>RequestsJSONDecodeError\<close> and \<open>RequestException\<close> are the classes of
  \<open>requests.exceptions\<close>, \<open>JSONDecodeError\<close> is \<open>json.JSONDecodeError\<close>.
  \<open>response.json()\<close> also raises \<open>RecursionError\<close> (a body nested too deep) and a
  plain \<open>ValueError\<close> (an integer literal longer than the interpreter's digit limit).
  \<open>KeyboardInterrupt\<close> and \<open>SystemExit\<close> derive from \<open>BaseException\<close> only.
\<close>

datatype exc_class =
    KeyboardInterrupt | SystemExit
  | Exception | ValueError | TypeError | KeyError | AttributeError | EOFError | OSError
  | RuntimeError | RecursionError
  | JSONDecodeError
  | RequestException | HTTPError | ConnectionError | Timeout
  | ConnectTimeout | ReadTimeout | InvalidJSONError | RequestsJSONDecodeError

text \<open>The proper ancestors of each class (below \<open>BaseException\<close>).\<close>

fun superclasses :: "exc_class \<Rightarrow> exc_class list" where
  "superclasses KeyboardInterrupt = []"
| "superclasses SystemExit = []"
| "superclasses Exception = []"
| "superclasses ValueError = [Exception]"
| "superclasses TypeError = [Exception]"
| "superclasses KeyError = [Exception]"
| "superclasses AttributeError = [Exception]"
| "superclasses EOFError = [Exception]"
| "superclasses OSError = [Exception]"
| "superclasses RuntimeError = [Exception]"
| "superclasses RecursionError = [RuntimeError, Exception]"
| "superclasses JSONDecodeError = [ValueError, Exception]"
| "superclasses RequestException = [OSError, Exception]"
| "superclasses HTTPError = [RequestException, OSError, Exception]"
| "superclasses ConnectionError = [RequestException, OSError, Exception]"
| "superclasses Timeout = [RequestException, OSError, Exception]"
| "superclasses ConnectTimeout =
     [ConnectionError, Timeout, RequestException, OSError, Exception]"
| "superclasses ReadTimeout = [Timeout, RequestException, OSError, Exception]"
| "superclasses InvalidJSONError = [RequestException, OSError, Exception]"
| "superclasses RequestsJSONDecodeError =
     [InvalidJSONError, JSONDecodeError, RequestException, OSError, ValueError, Exception]"

text \<open>\<open>isinstance e c\<close>: an exception of class \<open>e\<close> is caught by \<open>except c\<close>.\<close>

definition isinstance :: "exc_class \<Rightarrow> exc_class \<Rightarrow> bool" where
  "isinstance e c = (e = c \<or> c \<in> set (superclasses e))"

text \<open>
  \<open>int(s)\<close> for a \<open>str\<close> on which \<open>isdigit()\<close> holds, the only way \<open>main\<close>
  calls it: such a string has no sign, whitespace or underscore, and \<open>int\<close> accepts
  it exactly when every character is a decimal digit and there are no more digits
  than the interpreter's limit (\<open>sys.int_info.default_max_str_digits\<close>, 4300);
  otherwise it raises \<open>ValueError\<close>.
\<close>

definition int_max_str_digits :: nat where
  "int_max_str_digits = 4300"

definition digit_value :: "char \<Rightarrow> int" where
  "digit_value c = int (of_char c) - 48"

definition py_int :: "string \<Rightarrow> exc_class + int" where
  "py_int s =
     (if s \<noteq> [] \<and> list_all isdecimal_char s \<and> length s \<le> int_max_str_digits
      then Inr (foldl (\<lambda>a c. 10 * a + digit_value c) 0 s)
      else Inl ValueError)"

text \<open>\<open>str(n)\<close> for an \<open>int\<close>, as the f-strings format the identifier.\<close>

fun str_nat :: "nat \<Rightarrow> string" where
  "str_nat n =
     (if n < 10 then [char_of (48 + n)]
      else str_nat (n div 10) @ [char_of (48 + n mod 10)])"

definition str_int :: "int \<Rightarrow> string" where
  "str_int i = (if i < 0 then CHR ''-'' # str_nat (nat (- i)) else str_nat (nat i))"

text \<open>
  A float: \<open>Finite neg m e\<close> is the value \<open>(-1)^neg * m * 2^e\<close> (every IEEE double
  is of this form, the sign kept apart so that \<open>-0.0\<close> exists).
\<close>

datatype pyfloat = Finite bool nat int | Infinity bool | NaN

text \<open>The values \<open>response.json()\<close> can produce.\<close>

datatype pyval =
    PyNone | PyBool bool | PyInt int | PyFloat pyfloat | PyStr string
  | PyList "pyval list" | PyDict "(string \<times> pyval) list"

text \<open>Truth value testing, as \<open>if tle_data:\<close> does it.\<close>

fun truthy :: "pyval \<Rightarrow> bool" where
  "truthy PyNone = False"
| "truthy (PyBool b) = b"
| "truthy (PyInt i) = (i \<noteq> 0)"
| "truthy (PyFloat (Finite neg m e)) = (m \<noteq> 0)"
| "truthy (PyFloat (Infinity neg)) = True"
| "truthy (PyFloat NaN) = True"
| "truthy (PyStr s) = (s \<noteq> [])"
| "truthy (PyList xs) = (xs \<noteq> [])"
| "truthy (PyDict kvs) = (kvs \<noteq> [])"

text \<open>
  \<open>v[k]\<close> with a \<open>str\<close> key: a dict raises \<open>KeyError\<close> for a missing key, every
  other value raises \<open>TypeError\<close>.
\<close>

fun getitem :: "pyval \<Rightarrow> string \<Rightarrow> exc_class + pyval" where
  "getitem (PyDict kvs) k = (case map_of kvs k of None \<Rightarrow> Inl KeyError | Some v \<Rightarrow> Inr v)"
| "getitem v k = Inl TypeError"

text \<open>\<open>v.get(k, d)\<close>: only a dict has the method.\<close>

fun dict_get :: "pyval \<Rightarrow> string \<Rightarrow> pyval \<Rightarrow> exc_class + pyval" where
  "dict_get (PyDict kvs) k d = (case map_of kvs k of None \<Rightarrow> Inr d | Some v \<Rightarrow> Inr v)"
| "dict_get v k d = Inl AttributeError"

text \<open>
  \<open>format(x, '.2f')\<close>: the exact value rounded to two decimals, ties to even,
  the sign kept. \<open>round_half_even p q\<close> is \<open>p / q\<close> rounded to the nearest
  integer, and \<open>hundredths m e\<close> is \<open>m * 2^e * 100\<close> rounded so.
\<close>

definition round_half_even :: "nat \<Rightarrow> nat \<Rightarrow> nat" where
  "round_half_even p q =
     (let n = p div q; r = p mod q
      in if 2 * r < q then n
         else if q < 2 * r then n + 1
         else if even n then n else n + 1)"

definition hundredths :: "nat \<Rightarrow> int \<Rightarrow> nat" where
  "hundredths m e =
     (if 0 \<le> e then m * 2 ^ nat e * 100
      else round_half_even (m * 100) (2 ^ nat (- e)))"

definition format_2f :: "pyfloat \<Rightarrow> string" where
  "format_2f x =
     (case x of
        Finite neg m e \<Rightarrow>
          (let h = hundredths m e
           in (if neg then [CHR ''-''] else []) @ str_nat (h div 100) @ [CHR ''.'']
              @ [char_of (48 + h mod 100 div 10), char_of (48 + h mod 10)])
      | Infinity neg \<Rightarrow> (if neg then ''-inf'' else ''inf'')
      | NaN \<Rightarrow> ''nan'')"

text \<open>
  The text an f-string builds: literal pieces and \<open>str(v)\<close> of embedded values.
  \<open>str\<close> of a \<open>str\<close> is the string itself; \<open>str\<close> of any other value is kept
  symbolic (\<open>StrOf v\<close>).
\<close>

datatype fpart = Lit string | StrOf pyval

fun py_format :: "pyval \<Rightarrow> fpart" where
  "py_format (PyStr s) = Lit s"
| "py_format v = StrOf v"

text \<open>The characters of a text without symbolic part.\<close>

fun render :: "fpart list \<Rightarrow> string option" where
  "render [] = Some []"
| "render (Lit s # ps) = (case render ps of None \<Rightarrow> None | Some t \<Rightarrow> Some (s @ t))"
| "render (StrOf v # ps) = None"

section \<open>The outside world\<close>

text \<open>The arguments of \<open>requests.get\<close>.\<close>

record request =
  url :: string
  headers :: "(string \<times> string) list"
  timeout :: nat
  verify :: bool

text \<open>
  A response: its status code and what \<open>response.json()\<close> does on its body (the
  parsed value, or the exception raised for a body that is not valid JSON).
\<close>

record response =
  status_code :: nat
  json_result :: "exc_class + pyval"

text \<open>
  \<open>response.raise_for_status()\<close> of the requests library raises \<open>HTTPError\<close> for
  the client and server error statuses, 400 to 599, and for no other status.
\<close>

definition raise_for_status :: "response \<Rightarrow> exc_class option" where
  "raise_for_status r =
     (if 400 \<le> status_code r \<and> status_code r < 600 then Some HTTPError else None)"

text \<open>What folium builds: a map with its markers.\<close>

datatype element =
    Marker "pyfloat \<times> pyfloat" "fpart list" string string
  | CircleMarker "pyfloat \<times> pyfloat" nat "fpart list" string bool string

record folium_map =
  location :: "pyfloat \<times> pyfloat"
  zoom_start :: nat
  children :: "element list"

text \<open>The messages handed to the logger.\<close>

datatype log_msg =
    Sending_GET_request string "(string \<times> string) list"
  | Received_response nat
  | Response_JSON pyval
  | HTTP_error_occurred exc_class
  | Connection_error_occurred exc_class
  | Timeout_error_occurred exc_class
  | An_error_occurred exc_class
  | JSON_decode_error exc_class
  | Satellite_Name pyval
  | TLE_Line_1 pyval
  | TLE_Line_2 pyval
  | Satellite_Position pyfloat pyfloat pyfloat
  | Error_calculating exc_class
  | Error_creating_map exc_class

text \<open>
  What the program does to the outside, in order. \<open>PrintJSON v\<close> is
  \<open>print(json.dumps(v, indent=4))\<close>; \<open>WebbrowserOpen f\<close> opens the \<open>file://\<close>
  URL of the absolute path of \<open>f\<close>. Printing, logging and opening the browser are
  taken not to raise.
\<close>

datatype effect =
    Prompt string
  | Print "fpart list"
  | PrintJSON pyval
  | LogDebug log_msg
  | LogError log_msg
  | HttpGet request
  | WebbrowserOpen string

text \<open>
  What the outside does during one iteration of the loop: what \<open>input\<close> returns
  or raises, what \<open>requests.get\<close> returns or raises, what skyfield computes from
  the two lines and the name at the current instant (latitude, longitude, elevation)
  or raises, which exception a folium call inside \<open>create_map\<close> raises, if any, and
  which exception \<open>sat_map.save\<close> raises, if any.
\<close>

record world =
  input_line :: "exc_class + string"
  requests_get :: "request \<Rightarrow> exc_class + response"
  skyfield_subpoint :: "pyval \<Rightarrow> pyval \<Rightarrow> pyval \<Rightarrow> exc_class + (pyfloat \<times> pyfloat \<times> pyfloat)"
  folium_fault :: "pyfloat \<Rightarrow> pyfloat \<Rightarrow> pyval \<Rightarrow> exc_class option"
  save_fault :: "string \<Rightarrow> exc_class option"

text \<open>The files of the working directory: name to saved map.\<close>

type_synonym files = "string \<Rightarrow> folium_map option"

section \<open>fetch_tle\<close>

definition fetch_url :: "int \<Rightarrow> string" where
  "fetch_url satellite_id = ''https://tle.ivanstanojevic.me/api/tle/'' @ str_int satellite_id"

definition fetch_headers :: "(string \<times> string) list" where
  "fetch_headers =
     [(''User-Agent'',
       ''Mozilla/5.0 (Windows NT 10.0; Win64; x64) ''
       @ ''AppleWebKit/537.36 (KHTML, like Gecko) ''
       @ ''Chrome/58.0.3029.110 Safari/537.3''),
      (''Accept'', ''application/json'')]"

definition fetch_request :: "int \<Rightarrow> request" where
  "fetch_request satellite_id =
     \<lparr>url = fetch_url satellite_id, headers = fetch_headers, timeout = 10, verify = False\<rparr>"

text \<open>The body of the \<open>try\<close>: the effects so far, and the value returned or the
  exception raised.\<close>

definition fetch_tle_try :: "world \<Rightarrow> int \<Rightarrow> effect list \<times> (exc_class + pyval)" where
  "fetch_tle_try w satellite_id =
     (let req = fetch_request satellite_id;
          eff0 = [LogDebug (Sending_GET_request (url req) (headers req)), HttpGet req]
      in case requests_get w req of
           Inl e \<Rightarrow> (eff0, Inl e)
         | Inr resp \<Rightarrow>
             (let eff1 = eff0 @ [LogDebug (Received_response (status_code resp))]
              in case raise_for_status resp of
                   Some e \<Rightarrow> (eff1, Inl e)
                 | None \<Rightarrow>
                     (case json_result resp of
                        Inl e \<Rightarrow> (eff1, Inl e)
                      | Inr tle_data \<Rightarrow>
                          (eff1 @ [LogDebug (Response_JSON tle_data)], Inr tle_data))))"

text \<open>The \<open>except\<close> clauses, tried in the order of the source: the message logged
  by the first clause that matches, or \<open>None\<close> when no clause catches the exception.\<close>

definition fetch_tle_except :: "exc_class \<Rightarrow> log_msg option" where
  "fetch_tle_except e =
     (if isinstance e HTTPError then Some (HTTP_error_occurred e)
      else if isinstance e ConnectionError then Some (Connection_error_occurred e)
      else if isinstance e Timeout then Some (Timeout_error_occurred e)
      else if isinstance e RequestException then Some (An_error_occurred e)
      else if isinstance e JSONDecodeError then Some (JSON_decode_error e)
      else None)"

text \<open>\<open>Inr v\<close>: the function returns \<open>v\<close> (\<open>PyNone\<close> after a caught exception);
  \<open>Inl e\<close>: the exception \<open>e\<close> leaves the function.\<close>

definition fetch_tle :: "world \<Rightarrow> int \<Rightarrow> effect list \<times> (exc_class + pyval)" where
  "fetch_tle w satellite_id =
     (case fetch_tle_try w satellite_id of
        (eff, Inr tle_data) \<Rightarrow> (eff, Inr tle_data)
      | (eff, Inl e) \<Rightarrow>
          (case fetch_tle_except e of
             Some msg \<Rightarrow> (eff @ [LogError msg], Inr PyNone)
           | None \<Rightarrow> (eff, Inl e)))"

section \<open>calculate_satellite_position\<close>

definition calculate_try ::
  "world \<Rightarrow> pyval \<Rightarrow> effect list \<times> (exc_class + pyfloat \<times> pyfloat)" where
  "calculate_try w tle_data =
     (case getitem tle_data ''line1'' of
        Inl e \<Rightarrow> ([], Inl e)
      | Inr line1 \<Rightarrow>
     (case getitem tle_data ''line2'' of
        Inl e \<Rightarrow> ([], Inl e)
      | Inr line2 \<Rightarrow>
     (case getitem tle_data ''name'' of
        Inl e \<Rightarrow> ([], Inl e)
      | Inr name \<Rightarrow>
         (let eff0 = [LogDebug (Satellite_Name name), LogDebug (TLE_Line_1 line1),
                      LogDebug (TLE_Line_2 line2)]
          in case skyfield_subpoint w line1 line2 name of
               Inl e \<Rightarrow> (eff0, Inl e)
             | Inr (latitude, longitude, elevation) \<Rightarrow>
                 (eff0 @ [LogDebug (Satellite_Position latitude longitude elevation)],
                  Inr (latitude, longitude))))))"

text \<open>\<open>except Exception\<close>: log and return \<open>None\<close>; an exception that is not an
  \<open>Exception\<close> leaves the function.\<close>

definition calculate_satellite_position ::
  "world \<Rightarrow> pyval \<Rightarrow> effect list \<times> (exc_class + (pyfloat \<times> pyfloat) option)" where
  "calculate_satellite_position w tle_data =
     (case calculate_try w tle_data of
        (eff, Inr position) \<Rightarrow> (eff, Inr (Some position))
      | (eff, Inl e) \<Rightarrow>
          (if isinstance e Exception then (eff @ [LogError (Error_calculating e)], Inr None)
           else (eff, Inl e)))"

section \<open>create_map\<close>

definition degree_sign :: string where
  "degree_sign = [CHR 0xB0]"

definition marker_popup :: "pyfloat \<Rightarrow> pyfloat \<Rightarrow> pyval \<Rightarrow> fpart list" where
  "marker_popup latitude longitude satellite_name =
     [py_format satellite_name, Lit ''<br>Lat: '', Lit (format_2f latitude),
      Lit (degree_sign @ '', Lon: ''), Lit (format_2f longitude), Lit degree_sign]"

definition create_map_try ::
  "world \<Rightarrow> pyfloat \<Rightarrow> pyfloat \<Rightarrow> pyval \<Rightarrow> exc_class + folium_map" where
  "create_map_try w latitude longitude satellite_name =
     (case folium_fault w latitude longitude satellite_name of
        Some e \<Rightarrow> Inl e
      | None \<Rightarrow>
          Inr \<lparr>location = (latitude, longitude), zoom_start = 4,
               children =
                 [Marker (latitude, longitude)
                    (marker_popup latitude longitude satellite_name) ''red'' ''info-sign'',
                  CircleMarker (latitude, longitude) 10 [py_format satellite_name]
                    ''crimson'' True ''crimson'']\<rparr>)"

definition create_map ::
  "world \<Rightarrow> pyfloat \<Rightarrow> pyfloat \<Rightarrow> pyval \<Rightarrow> effect list \<times> (exc_class + folium_map option)"
  where
  "create_map w latitude longitude satellite_name =
     (case create_map_try w latitude longitude satellite_name of
        Inr sat_map \<Rightarrow> ([], Inr (Some sat_map))
      | Inl e \<Rightarrow>
          (if isinstance e Exception then ([LogError (Error_creating_map e)], Inr None)
           else ([], Inl e)))"

section \<open>main\<close>

text \<open>
  The loop is in \<open>Prompting\<close> before each \<open>input\<close>, \<open>Terminated\<close> after
  \<open>break\<close>, and \<open>Crashed e\<close> when the exception \<open>e\<close> has left \<open>main\<close>.
\<close>

datatype cli_state = Prompting | Terminated | Crashed exc_class

definition prompt_text :: string where
  "prompt_text =
     ''Enter the Satellite ID (NORAD ID) or '' @ [CHR 0x27] @ ''exit'' @ [CHR 0x27]
     @ '' to quit: ''"

definition map_filename_of :: "int \<Rightarrow> string" where
  "map_filename_of satellite_id = str_int satellite_id @ ''_location_map.html''"

text \<open>One iteration of \<open>while True\<close>: the effects, the files and the state after it.\<close>

definition main_iter :: "world \<Rightarrow> files \<Rightarrow> effect list \<times> files \<times> cli_state" where
  "main_iter w fs =
     (case input_line w of
        Inl e \<Rightarrow> ([Prompt prompt_text], fs, Crashed e)
      | Inr line \<Rightarrow>
     (let user_input = py_strip line in
      if py_lower user_input = ''exit''
      then ([Prompt prompt_text, Print [Lit ''Exiting the program. Goodbye!'']], fs, Terminated)
      else if \<not> py_isdigit user_input
      then ([Prompt prompt_text,
             Print [Lit ''Invalid input. Please enter a numeric Satellite ID.'']],
            fs, Prompting)
      else
     (case py_int user_input of
        Inl e \<Rightarrow> ([Prompt prompt_text], fs, Crashed e)
      | Inr satellite_id \<Rightarrow>
     (case fetch_tle w satellite_id of
        (eff1, Inl e) \<Rightarrow> (Prompt prompt_text # eff1, fs, Crashed e)
      | (eff1, Inr tle_data) \<Rightarrow>
     (if truthy tle_data then
     (case calculate_satellite_position w tle_data of
        (eff2, Inl e) \<Rightarrow> (Prompt prompt_text # eff1 @ eff2, fs, Crashed e)
      | (eff2, Inr None) \<Rightarrow>
          (Prompt prompt_text # eff1 @ eff2
             @ [Print [Lit ''Failed to calculate satellite position.'']],
           fs, Prompting)
      | (eff2, Inr (Some (latitude, longitude))) \<Rightarrow>
     (case dict_get tle_data ''name'' (PyStr ''Unknown Satellite'') of
        Inl e \<Rightarrow> (Prompt prompt_text # eff1 @ eff2, fs, Crashed e)
      | Inr satellite_name \<Rightarrow>
     (case create_map w latitude longitude satellite_name of
        (eff3, Inl e) \<Rightarrow> (Prompt prompt_text # eff1 @ eff2 @ eff3, fs, Crashed e)
      | (eff3, Inr None) \<Rightarrow>
          (Prompt prompt_text # eff1 @ eff2 @ eff3
             @ [Print [Lit ''Failed to create the map.'']],
           fs, Prompting)
      | (eff3, Inr (Some sat_map)) \<Rightarrow>
     (let map_filename = map_filename_of satellite_id in
      case save_fault w map_filename of
        Some e \<Rightarrow> (Prompt prompt_text # eff1 @ eff2 @ eff3, fs, Crashed e)
      | None \<Rightarrow>
          (Prompt prompt_text # eff1 @ eff2 @ eff3
             @ [Print [Lit (CHR 0x0A # ''TLE Data Retrieved Successfully for ''),
                       py_format satellite_name, Lit '':''],
                PrintJSON tle_data,
                Print [Lit (CHR 0x0A # ''Satellite location map has been saved to ''),
                       Lit map_filename, Lit ''.''],
                WebbrowserOpen map_filename],
           fs(map_filename \<mapsto> sat_map), Prompting)))))
      else
          (Prompt prompt_text # eff1
             @ [Print [Lit (''Failed to retrieve TLE data.'' @ [CHR 0x0A])]],
           fs, Prompting))))))"

text \<open>
  The loop, over the worlds of its successive iterations: it goes on while the state
  is \<open>Prompting\<close>; with no iteration left it waits at the prompt.
\<close>

fun main :: "world list \<Rightarrow> files \<Rightarrow> effect list \<times> files \<times> cli_state" where
  "main [] fs = ([], fs, Prompting)"
| "main (w # ws) fs =
     (case main_iter w fs of
        (eff, fs', Prompting) \<Rightarrow>
          (case main ws fs' of (eff', fs'', st) \<Rightarrow> (eff @ eff', fs'', st))
      | (eff, fs', st) \<Rightarrow> (eff, fs', st))"

section \<open>Observations and example worlds\<close>

text \<open>The requests issued among some effects, in order.\<close>

fun http_requests :: "effect list \<Rightarrow> request list" where
  "http_requests [] = []"
| "http_requests (HttpGet r # es) = r # http_requests es"
| "http_requests (e # es) = http_requests es"

text \<open>The texts printed among some effects, in order.\<close>

fun printed :: "effect list \<Rightarrow> fpart list list" where
  "printed [] = []"
| "printed (Print t # es) = t # printed es"
| "printed (e # es) = printed es"

text \<open>The prompts shown among some effects.\<close>

fun prompts :: "effect list \<Rightarrow> string list" where
  "prompts [] = []"
| "prompts (Prompt p # es) = p # prompts es"
| "prompts (e # es) = prompts es"

text \<open>An element set as the service answers it, and a sub-satellite point: latitude
  51.5, longitude the double nearest to -0.12 (\<open>-0x1.eb851eb851eb8p-4\<close>), elevation
  420.\<close>

definition iss_tle :: pyval where
  "iss_tle =
     PyDict [(''satelliteId'', PyInt 25544), (''name'', PyStr ''ISS (ZARYA)''),
             (''line1'', PyStr ''1 25544U 98067A   24001.00000000  .00016717  00000-0  10270-3 0  9005''),
             (''line2'', PyStr ''2 25544  51.6400 208.9163 0006317  69.9862  25.2906 15.54225995 67660'')]"

definition float_51_50 :: pyfloat where
  "float_51_50 = Finite False 103 (- 1)"

definition float_minus_0_12 :: pyfloat where
  "float_minus_0_12 = Finite True 8646911284551352 (- 56)"

text \<open>A world in which every stage succeeds: the user types the identifier, the
  service answers 200 with the element set, skyfield and folium raise nothing and the
  file can be written.\<close>

definition example_world :: world where
  "example_world =
     \<lparr>input_line = Inr ''25544'',
      requests_get = (\<lambda>req. Inr \<lparr>status_code = 200, json_result = Inr iss_tle\<rparr>),
      skyfield_subpoint = (\<lambda>line1 line2 name. Inr (float_51_50, float_minus_0_12, Finite False 420 0)),
      folium_fault = (\<lambda>latitude longitude name. None),
      save_fault = (\<lambda>filename. None)\<rparr>"

text \<open>The same world with another line typed, another outcome of \<open>requests.get\<close>,
  skyfield raising, or folium raising.\<close>

definition typing :: "string \<Rightarrow> world \<Rightarrow> world" where
  "typing line w = w\<lparr>input_line := Inr line\<rparr>"

definition answering :: "exc_class + response \<Rightarrow> world \<Rightarrow> world" where
  "answering outcome w = w\<lparr>requests_get := (\<lambda>req. outcome)\<rparr>"

definition skyfield_raising :: "exc_class \<Rightarrow> world \<Rightarrow> world" where
  "skyfield_raising e w = w\<lparr>skyfield_subpoint := (\<lambda>line1 line2 name. Inl e)\<rparr>"

definition folium_raising :: "exc_class \<Rightarrow> world \<Rightarrow> world" where
  "folium_raising e w = w\<lparr>folium_fault := (\<lambda>latitude longitude name. Some e)\<rparr>"

text \<open>The same world with skyfield returning a given point whatever the lines are
  (for lines it cannot parse it raises nothing and returns NaN coordinates), or with
  \<open>sat_map.save\<close> raising; and the empty working directory.\<close>

definition skyfield_returning :: "pyfloat \<times> pyfloat \<times> pyfloat \<Rightarrow> world \<Rightarrow> world" where
  "skyfield_returning point w = w\<lparr>skyfield_subpoint := (\<lambda>line1 line2 name. Inr point)\<rparr>"

definition save_raising :: "exc_class \<Rightarrow> world \<Rightarrow> world" where
  "save_raising e w = w\<lparr>save_fault := (\<lambda>filename. Some e)\<rparr>"

definition no_files :: files where
  "no_files = (\<lambda>filename. None)"

section \<open>Properties\<close>

subsection \<open>fetch_tle\<close>


lemma fetch_tle_except_caught:
  "isinstance e RequestException \<or> isinstance e JSONDecodeError \<Longrightarrow> \<exists>m. fetch_tle_except e = Some m"
  by (cases e) (simp_all add: fetch_tle_except_def isinstance_def)

lemma isinstance_ConnectionError_RequestException:
  "isinstance e ConnectionError \<or> isinstance e Timeout \<or> isinstance e HTTPError \<Longrightarrow> isinstance e RequestException"
  by (cases e) (simp_all add: isinstance_def)

lemma snd_fetch_tle_raised:
  "snd (fetch_tle_try w n) = Inl e \<Longrightarrow> fetch_tle_except e = Some m \<Longrightarrow> snd (fetch_tle w n) = Inr PyNone"
  by (cases "fetch_tle_try w n") (simp add: fetch_tle_def)

lemma snd_fetch_tle_returned:
  "snd (fetch_tle_try w n) = Inr v \<Longrightarrow> snd (fetch_tle w n) = Inr v"
  by (cases "fetch_tle_try w n") (simp add: fetch_tle_def)

lemma fetch_tle_try_get_raised:
  "requests_get w (fetch_request n) = Inl e \<Longrightarrow> snd (fetch_tle_try w n) = Inl e"
  by (simp add: fetch_tle_try_def Let_def)

lemma fetch_tle_try_status:
  "requests_get w (fetch_request n) = Inr r \<Longrightarrow> 400 \<le> status_code r \<Longrightarrow> status_code r < 600 \<Longrightarrow>
   snd (fetch_tle_try w n) = Inl HTTPError"
  by (simp add: fetch_tle_try_def Let_def raise_for_status_def)

lemma fetch_tle_try_json:
  "requests_get w (fetch_request n) = Inr r \<Longrightarrow> \<not> (400 \<le> status_code r \<and> status_code r < 600) \<Longrightarrow>
   snd (fetch_tle_try w n) = json_result r"
  by (auto simp add: fetch_tle_try_def Let_def raise_for_status_def split: sum.splits)

lemma http_requests_append: "http_requests (xs @ ys) = http_requests xs @ http_requests ys"
  by (induction xs rule: http_requests.induct) simp_all

lemma http_requests_fetch_tle_try: "http_requests (fst (fetch_tle_try w n)) = [fetch_request n]"
  by (simp add: fetch_tle_try_def Let_def http_requests_append split: sum.splits option.splits)

lemma http_requests_fetch_tle: "http_requests (fst (fetch_tle w n)) = [fetch_request n]"
  using http_requests_fetch_tle_try [of w n]
  by (cases "fetch_tle_try w n")
    (auto simp add: fetch_tle_def http_requests_append split: sum.splits option.splits)

text \<open>
  C7: every fetch issues exactly one GET, to the fixed endpoint ending in
  \<open>/api/tle/{id}\<close>, with the fixed \<open>User-Agent\<close> header and
  \<open>Accept: application/json\<close>, a timeout of 10 and certificate verification
  disabled, whatever the outside answers.
\<close>

theorem fetch_tle_issues_fixed_request:
  "http_requests (fst (fetch_tle w satellite_id)) =
     [\<lparr>url = ''https://tle.ivanstanojevic.me/api/tle/'' @ str_int satellite_id,
       headers =
         [(''User-Agent'',
           ''Mozilla/5.0 (Windows NT 10.0; Win64; x64) AppleWebKit/537.36 (KHTML, like Gecko) Chrome/58.0.3029.110 Safari/537.3''),
          (''Accept'', ''application/json'')],
       timeout = 10, verify = False\<rparr>]"
  by (simp add: http_requests_fetch_tle fetch_request_def fetch_url_def fetch_headers_def)

text \<open>
  C1, as amended: when \<open>requests.get\<close> raises a connection error or a timeout,
  when the status is a client or server error (400 to 599), or when \<open>response.json()\<close>
  raises a JSON decode error (\<open>json.JSONDecodeError\<close> or a subclass), \<open>fetch_tle\<close>
  returns \<open>None\<close> and no exception leaves it; with a 2xx status and a body that
  \<open>response.json()\<close> parses it returns the parsed value.
\<close>

theorem fetch_tle_failure_absent:
  "(requests_get w (fetch_request n) = Inl e \<and> (isinstance e ConnectionError \<or> isinstance e Timeout)
      \<longrightarrow> snd (fetch_tle w n) = Inr PyNone)
   \<and> (requests_get w (fetch_request n) = Inr r \<and> 400 \<le> status_code r \<and> status_code r < 600
      \<longrightarrow> snd (fetch_tle w n) = Inr PyNone)
   \<and> (requests_get w (fetch_request n) = Inr r \<and> json_result r = Inl e \<and> isinstance e JSONDecodeError
      \<longrightarrow> snd (fetch_tle w n) = Inr PyNone)
   \<and> (requests_get w (fetch_request n) = Inr r \<and> 200 \<le> status_code r \<and> status_code r < 300
        \<and> json_result r = Inr v
      \<longrightarrow> snd (fetch_tle w n) = Inr v)"
proof (intro conjI impI)
  assume a: "requests_get w (fetch_request n) = Inl e \<and> (isinstance e ConnectionError \<or> isinstance e Timeout)"
  then have "isinstance e RequestException"
    using isinstance_ConnectionError_RequestException by blast
  then obtain m where "fetch_tle_except e = Some m"
    using fetch_tle_except_caught by blast
  with a show "snd (fetch_tle w n) = Inr PyNone"
    using snd_fetch_tle_raised fetch_tle_try_get_raised by blast
next
  assume a: "requests_get w (fetch_request n) = Inr r \<and> 400 \<le> status_code r \<and> status_code r < 600"
  then have "snd (fetch_tle_try w n) = Inl HTTPError"
    by (simp add: fetch_tle_try_status)
  moreover have "fetch_tle_except HTTPError = Some (HTTP_error_occurred HTTPError)"
    by (simp add: fetch_tle_except_def isinstance_def)
  ultimately show "snd (fetch_tle w n) = Inr PyNone"
    by (rule snd_fetch_tle_raised)
next
  assume a: "requests_get w (fetch_request n) = Inr r \<and> json_result r = Inl e \<and> isinstance e JSONDecodeError"
  then obtain m where m: "fetch_tle_except e = Some m"
    using fetch_tle_except_caught by blast
  show "snd (fetch_tle w n) = Inr PyNone"
  proof (cases "400 \<le> status_code r \<and> status_code r < 600")
    case True
    with a have "snd (fetch_tle_try w n) = Inl HTTPError"
      by (simp add: fetch_tle_try_status)
    moreover have "fetch_tle_except HTTPError = Some (HTTP_error_occurred HTTPError)"
      by (simp add: fetch_tle_except_def isinstance_def)
    ultimately show ?thesis
      by (rule snd_fetch_tle_raised)
  next
    case False
    with a have "snd (fetch_tle_try w n) = Inl e"
      by (simp add: fetch_tle_try_json)
    then show ?thesis
      using m by (rule snd_fetch_tle_raised)
  qed
next
  assume a: "requests_get w (fetch_request n) = Inr r \<and> 200 \<le> status_code r \<and> status_code r < 300
        \<and> json_result r = Inr v"
  then have "snd (fetch_tle_try w n) = Inr v"
    by (simp add: fetch_tle_try_json)
  then show "snd (fetch_tle w n) = Inr v"
    by (rule snd_fetch_tle_returned)
qed

theorem fetch_tle_failure_absent_witness:
  "snd (fetch_tle (answering (Inl ConnectionError) example_world) 25544) = Inr PyNone
   \<and> snd (fetch_tle (answering (Inl ReadTimeout) example_world) 25544) = Inr PyNone
   \<and> snd (fetch_tle (answering (Inr \<lparr>status_code = 404, json_result = Inr iss_tle\<rparr>) example_world) 25544) = Inr PyNone
   \<and> snd (fetch_tle (answering (Inr \<lparr>status_code = 200, json_result = Inl RequestsJSONDecodeError\<rparr>) example_world) 25544) = Inr PyNone
   \<and> snd (fetch_tle example_world 25544) = Inr iss_tle"
  using fetch_tle_failure_absent [of "answering (Inl ConnectionError) example_world" 25544 ConnectionError]
    fetch_tle_failure_absent [of "answering (Inl ReadTimeout) example_world" 25544 ReadTimeout]
    fetch_tle_failure_absent [of "answering (Inr \<lparr>status_code = 404, json_result = Inr iss_tle\<rparr>) example_world" 25544 _
          "\<lparr>status_code = 404, json_result = Inr iss_tle\<rparr>"]
    fetch_tle_failure_absent [of "answering (Inr \<lparr>status_code = 200, json_result = Inl RequestsJSONDecodeError\<rparr>) example_world" 25544 RequestsJSONDecodeError
          "\<lparr>status_code = 200, json_result = Inl RequestsJSONDecodeError\<rparr>"]
    fetch_tle_failure_absent [of example_world 25544 _ "\<lparr>status_code = 200, json_result = Inr iss_tle\<rparr>" iss_tle]
  by (simp add: answering_def example_world_def isinstance_def)

text \<open>
  C1 as stated fails in three ways. A response with status 300 (neither 2xx nor an
  error status) and a JSON body passes \<open>raise_for_status\<close>, and \<open>fetch_tle\<close>
  returns the parsed body, not \<open>None\<close>. A body that is not valid JSON and is nested
  so deep that \<open>response.json()\<close> raises \<open>RecursionError\<close>, and a body that is valid
  JSON but holds an integer longer than the digit limit, for which it raises a plain
  \<open>ValueError\<close>, meet no \<open>except\<close> clause: the exception leaves \<open>fetch_tle\<close>.
\<close>

theorem fetch_tle_absent_counterexample:
  "snd (fetch_tle (answering (Inr \<lparr>status_code = 300, json_result = Inr iss_tle\<rparr>) example_world) 25544)
       = Inr iss_tle
   \<and> iss_tle \<noteq> PyNone
   \<and> snd (fetch_tle (answering (Inr \<lparr>status_code = 200, json_result = Inl RecursionError\<rparr>) example_world) 25544)
       = Inl RecursionError
   \<and> snd (fetch_tle (answering (Inr \<lparr>status_code = 200, json_result = Inl ValueError\<rparr>) example_world) 25544)
       = Inl ValueError"
  by (simp add: answering_def example_world_def fetch_tle_def fetch_tle_try_def Let_def
      raise_for_status_def iss_tle_def fetch_tle_except_def isinstance_def)

subsection \<open>calculate_satellite_position\<close>


lemma getitem_error_Exception: "getitem v k = Inl e \<Longrightarrow> isinstance e Exception"
  by (cases v) (auto simp add: isinstance_def split: option.splits)

lemma calculate_try_raised:
  "snd (calculate_try w tle_data) = Inl e \<Longrightarrow>
   isinstance e Exception \<or> (\<exists>line1 line2 name. skyfield_subpoint w line1 line2 name = Inl e)"
  by (auto simp add: calculate_try_def Let_def dest: getitem_error_Exception
      split: sum.splits prod.splits)

lemma calculate_raised_absent:
  "snd (calculate_try w tle_data) = Inl e \<Longrightarrow> isinstance e Exception \<Longrightarrow>
   snd (calculate_satellite_position w tle_data) = Inr None"
  by (cases "calculate_try w tle_data") (simp add: calculate_satellite_position_def)

lemma calculate_returned:
  "snd (calculate_try w tle_data) = Inr p \<Longrightarrow>
   snd (calculate_satellite_position w tle_data) = Inr (Some p)"
  by (cases "calculate_try w tle_data") (simp add: calculate_satellite_position_def)

lemma calculate_try_extraction:
  "getitem tle_data ''line1'' = Inl e \<or> getitem tle_data ''line2'' = Inl e
     \<or> getitem tle_data ''name'' = Inl e \<Longrightarrow>
   \<exists>e'. snd (calculate_try w tle_data) = Inl e' \<and> isinstance e' Exception"
  by (auto simp add: calculate_try_def Let_def dest: getitem_error_Exception
      split: sum.splits prod.splits)

lemma calculate_try_propagation:
  "getitem tle_data ''line1'' = Inr line1 \<Longrightarrow> getitem tle_data ''line2'' = Inr line2 \<Longrightarrow>
   getitem tle_data ''name'' = Inr name \<Longrightarrow> skyfield_subpoint w line1 line2 name = Inl e \<Longrightarrow>
   snd (calculate_try w tle_data) = Inl e"
  by (simp add: calculate_try_def Let_def)

lemma calculate_escaped:
  "snd (calculate_satellite_position w tle_data) = Inl e \<Longrightarrow> \<not> isinstance e Exception"
  by (cases "calculate_try w tle_data")
    (auto simp add: calculate_satellite_position_def split: sum.splits if_splits)

lemma calculate_try_computed:
  "getitem tle_data ''line1'' = Inr line1 \<Longrightarrow> getitem tle_data ''line2'' = Inr line2 \<Longrightarrow>
   getitem tle_data ''name'' = Inr name \<Longrightarrow>
   skyfield_subpoint w line1 line2 name = Inr (latitude, longitude, elevation) \<Longrightarrow>
   snd (calculate_try w tle_data) = Inr (latitude, longitude)"
  by (simp add: calculate_try_def Let_def)

text \<open>
  C4, as amended: whatever \<open>tle_data\<close> is, when a line or the name cannot be
  extracted, or when skyfield raises an exception deriving from \<open>Exception\<close>,
  \<open>calculate_satellite_position\<close> returns \<open>None\<close>; when skyfield returns a point,
  the function returns its latitude and longitude; and no exception deriving from
  \<open>Exception\<close> ever leaves the function.
\<close>

theorem calculate_failure_absent:
  "((\<exists>e. getitem tle_data ''line1'' = Inl e) \<or> (\<exists>e. getitem tle_data ''line2'' = Inl e)
       \<or> (\<exists>e. getitem tle_data ''name'' = Inl e)
     \<longrightarrow> snd (calculate_satellite_position w tle_data) = Inr None)
   \<and> (getitem tle_data ''line1'' = Inr line1 \<and> getitem tle_data ''line2'' = Inr line2
        \<and> getitem tle_data ''name'' = Inr name
        \<and> skyfield_subpoint w line1 line2 name = Inl e \<and> isinstance e Exception
     \<longrightarrow> snd (calculate_satellite_position w tle_data) = Inr None)
   \<and> (getitem tle_data ''line1'' = Inr line1 \<and> getitem tle_data ''line2'' = Inr line2
        \<and> getitem tle_data ''name'' = Inr name
        \<and> skyfield_subpoint w line1 line2 name = Inr (latitude, longitude, elevation)
     \<longrightarrow> snd (calculate_satellite_position w tle_data) = Inr (Some (latitude, longitude)))
   \<and> (snd (calculate_satellite_position w tle_data) = Inl e' \<longrightarrow> \<not> isinstance e' Exception)"
proof (intro conjI impI)
  assume "(\<exists>e. getitem tle_data ''line1'' = Inl e) \<or> (\<exists>e. getitem tle_data ''line2'' = Inl e)
       \<or> (\<exists>e. getitem tle_data ''name'' = Inl e)"
  then have "\<exists>e. snd (calculate_try w tle_data) = Inl e \<and> isinstance e Exception"
    using calculate_try_extraction [of tle_data _ w] by blast
  then show "snd (calculate_satellite_position w tle_data) = Inr None"
    using calculate_raised_absent by blast
next
  assume "getitem tle_data ''line1'' = Inr line1 \<and> getitem tle_data ''line2'' = Inr line2
        \<and> getitem tle_data ''name'' = Inr name
        \<and> skyfield_subpoint w line1 line2 name = Inl e \<and> isinstance e Exception"
  then have "snd (calculate_try w tle_data) = Inl e" and "isinstance e Exception"
    by (simp_all add: calculate_try_propagation)
  then show "snd (calculate_satellite_position w tle_data) = Inr None"
    by (rule calculate_raised_absent)
next
  assume "getitem tle_data ''line1'' = Inr line1 \<and> getitem tle_data ''line2'' = Inr line2
        \<and> getitem tle_data ''name'' = Inr name
        \<and> skyfield_subpoint w line1 line2 name = Inr (latitude, longitude, elevation)"
  then have "snd (calculate_try w tle_data) = Inr (latitude, longitude)"
    by (simp add: calculate_try_computed)
  then show "snd (calculate_satellite_position w tle_data) = Inr (Some (latitude, longitude))"
    by (rule calculate_returned)
next
  assume "snd (calculate_satellite_position w tle_data) = Inl e'"
  then show "\<not> isinstance e' Exception"
    by (rule calculate_escaped)
qed

theorem calculate_failure_absent_witness:
  "snd (calculate_satellite_position example_world (PyDict [(''name'', PyStr ''ISS (ZARYA)'')])) = Inr None
   \<and> snd (calculate_satellite_position (skyfield_raising ValueError example_world) iss_tle) = Inr None
   \<and> snd (calculate_satellite_position example_world iss_tle)
       = Inr (Some (float_51_50, float_minus_0_12))
   \<and> snd (calculate_satellite_position (skyfield_raising KeyboardInterrupt example_world) iss_tle)
       = Inl KeyboardInterrupt
   \<and> \<not> isinstance KeyboardInterrupt Exception"
proof -
  have k: "snd (calculate_satellite_position (skyfield_raising KeyboardInterrupt example_world) iss_tle)
       = Inl KeyboardInterrupt"
    by (simp add: calculate_satellite_position_def calculate_try_def skyfield_raising_def
        iss_tle_def isinstance_def)
  show ?thesis
    using calculate_failure_absent [of "PyDict [(''name'', PyStr ''ISS (ZARYA)'')]" example_world]
      calculate_failure_absent [of iss_tle "skyfield_raising ValueError example_world"
            "PyStr ''1 25544U 98067A   24001.00000000  .00016717  00000-0  10270-3 0  9005''"
            "PyStr ''2 25544  51.6400 208.9163 0006317  69.9862  25.2906 15.54225995 67660''"
            "PyStr ''ISS (ZARYA)''" ValueError]
      calculate_failure_absent [of iss_tle example_world
            "PyStr ''1 25544U 98067A   24001.00000000  .00016717  00000-0  10270-3 0  9005''"
            "PyStr ''2 25544  51.6400 208.9163 0006317  69.9862  25.2906 15.54225995 67660''"
            "PyStr ''ISS (ZARYA)''" _ float_51_50 float_minus_0_12 "Finite False 420 0"]
      calculate_failure_absent [of iss_tle "skyfield_raising KeyboardInterrupt example_world" _ _ _ _ _ _ _ KeyboardInterrupt] k
    by (simp add: skyfield_raising_def example_world_def iss_tle_def isinstance_def)
qed

text \<open>
  C4 as stated fails for malformed element lines for which the library raises nothing:
  skyfield returns NaN coordinates for lines it cannot parse, and the function returns
  them, not \<open>None\<close>. And an exception that does not derive from \<open>Exception\<close>
  (\<open>KeyboardInterrupt\<close>) is not caught and reaches the loop.
\<close>

theorem calculate_malformed_lines_counterexample:
  "snd (calculate_satellite_position (skyfield_returning (NaN, NaN, NaN) example_world)
         (PyDict [(''name'', PyStr ''X''), (''line1'', PyStr ''garbage''), (''line2'', PyStr ''junk'')]))
     = Inr (Some (NaN, NaN))
   \<and> snd (calculate_satellite_position (skyfield_raising KeyboardInterrupt example_world) iss_tle)
     = Inl KeyboardInterrupt"
  by (simp add: calculate_satellite_position_def calculate_try_def skyfield_returning_def
      skyfield_raising_def iss_tle_def isinstance_def)

subsection \<open>create_map\<close>

lemma format_2f_51_50: "format_2f float_51_50 = ''51.50''"
  by (simp add: format_2f_def float_51_50_def hundredths_def round_half_even_def
      char_of_def bit_iff_odd drop_bit_eq_div)

lemma format_2f_minus_0_12: "format_2f float_minus_0_12 = ''-0.12''"
  by (simp add: format_2f_def float_minus_0_12_def hundredths_def round_half_even_def
      char_of_def bit_iff_odd drop_bit_eq_div)

text \<open>
  C6: for latitude 51.50, longitude -0.12 and the name \<open>TestSat\<close>, when folium
  raises nothing, \<open>create_map\<close> returns a map with a pin whose popup text is
  \<open>TestSat<br>\<close> followed by \<open>Lat: 51.50\<close>, the degree sign, \<open>, Lon: -0.12\<close>
  and the degree sign (both coordinates with two decimals), and with a circle marker
  of radius 10 at the same coordinate.
\<close>

theorem create_map_popup_two_decimals:
  assumes "folium_fault w float_51_50 float_minus_0_12 (PyStr ''TestSat'') = None"
  shows "\<exists>sat_map popup.
     create_map w float_51_50 float_minus_0_12 (PyStr ''TestSat'') = ([], Inr (Some sat_map))
     \<and> children sat_map =
          [Marker (float_51_50, float_minus_0_12) popup ''red'' ''info-sign'',
           CircleMarker (float_51_50, float_minus_0_12) 10 [Lit ''TestSat''] ''crimson'' True ''crimson'']
     \<and> render popup =
          Some (''TestSat<br>'' @ (''Lat: 51.50'' @ [CHR 0xB0] @ '', Lon: -0.12'' @ [CHR 0xB0]))"
  using assms
  by (simp add: create_map_def create_map_try_def marker_popup_def degree_sign_def
      format_2f_51_50 format_2f_minus_0_12)

theorem create_map_popup_two_decimals_witness:
  "\<exists>sat_map popup.
     create_map example_world float_51_50 float_minus_0_12 (PyStr ''TestSat'') = ([], Inr (Some sat_map))
     \<and> children sat_map =
          [Marker (float_51_50, float_minus_0_12) popup ''red'' ''info-sign'',
           CircleMarker (float_51_50, float_minus_0_12) 10 [Lit ''TestSat''] ''crimson'' True ''crimson'']
     \<and> render popup =
          Some (''TestSat<br>'' @ (''Lat: 51.50'' @ [CHR 0xB0] @ '', Lon: -0.12'' @ [CHR 0xB0]))"
proof -
  have h: "folium_fault example_world float_51_50 float_minus_0_12 (PyStr ''TestSat'') = None"
    by (simp add: example_world_def)
  show ?thesis
    by (rule create_map_popup_two_decimals [OF h])
qed

subsection \<open>main\<close>

lemma dropWhile_all: "list_all P xs \<Longrightarrow> dropWhile P (xs @ ys) = dropWhile P ys"
  by (induction xs) simp_all

lemma py_strip_surrounded:
  assumes "list_all isspace_char ws1" and "list_all isspace_char ws2"
    and "v \<noteq> []" and "\<not> isspace_char (hd v)" and "\<not> isspace_char (last v)"
  shows "py_strip (ws1 @ v @ ws2) = v"
proof -
  from assms(3,4) have front: "dropWhile isspace_char (v @ ws2) = v @ ws2"
    by (cases v) simp_all
  from assms(3,5) have rear: "dropWhile isspace_char (rev v) = rev v"
    by (cases "rev v") (simp_all add: last_rev [symmetric] hd_rev)
  have "py_strip (ws1 @ v @ ws2) = rev (dropWhile isspace_char (rev ws2 @ rev v))"
    using assms(1) front by (simp add: py_strip_def dropWhile_all)
  also have "\<dots> = rev (dropWhile isspace_char (rev v))"
    using assms(2) by (simp add: dropWhile_all)
  finally show ?thesis
    using rear by simp
qed

lemma lower_char_exit:
  "lower_char (CHR ''e'') = CHR ''e''" "lower_char (CHR ''E'') = CHR ''e''"
  "lower_char (CHR ''x'') = CHR ''x''" "lower_char (CHR ''X'') = CHR ''x''"
  "lower_char (CHR ''i'') = CHR ''i''" "lower_char (CHR ''I'') = CHR ''i''"
  "lower_char (CHR ''t'') = CHR ''t''" "lower_char (CHR ''T'') = CHR ''t''"
  by (simp_all add: lower_char_def char_of_def bit_iff_odd drop_bit_eq_div)

lemma isspace_char_exit:
  "\<not> isspace_char (CHR ''e'')" "\<not> isspace_char (CHR ''E'')"
  "\<not> isspace_char (CHR ''t'')" "\<not> isspace_char (CHR ''T'')"
  by (simp_all add: isspace_char_def)

lemma isdecimal_char_lower: "isdecimal_char c \<Longrightarrow> lower_char c = c"
  by (simp add: isdecimal_char_def lower_char_def Let_def)

lemma isdecimal_char_isdigit: "isdecimal_char c \<Longrightarrow> isdigit_char c"
  by (simp add: isdecimal_char_def isdigit_char_def Let_def)

lemma isdecimal_not_e: "\<not> isdecimal_char (CHR ''e'')"
  by (simp add: isdecimal_char_def)

lemma py_int_Inr:
  assumes "py_int s = Inr n"
  shows "py_isdigit s" and "py_lower s \<noteq> ''exit''"
proof -
  from assms have ne: "s \<noteq> []" and dec: "list_all isdecimal_char s"
    by (auto simp add: py_int_def split: if_splits)
  from dec have "list_all isdigit_char s"
    by (induction s) (simp_all add: isdecimal_char_isdigit)
  with ne show "py_isdigit s"
    by (simp add: py_isdigit_def)
  from ne obtain c cs where s: "s = c # cs"
    by (cases s) auto
  with dec have "lower_char c = c" and "isdecimal_char c"
    by (simp_all add: isdecimal_char_lower)
  then have "lower_char c \<noteq> CHR ''e''"
    using isdecimal_not_e by auto
  with s show "py_lower s \<noteq> ''exit''"
    by (auto simp add: py_lower_def)
qed

lemma py_int_25544: "py_int (py_strip ''25544'') = Inr 25544"
  by (simp add: py_strip_def isspace_char_def py_int_def isdecimal_char_def digit_value_def
      int_max_str_digits_def)


lemma main_iter_exit:
  "input_line w = Inr line \<Longrightarrow> py_lower (py_strip line) = ''exit'' \<Longrightarrow>
   main_iter w fs = ([Prompt prompt_text, Print [Lit ''Exiting the program. Goodbye!'']], fs, Terminated)"
  by (simp add: main_iter_def)

lemma main_iter_invalid:
  "input_line w = Inr line \<Longrightarrow> py_lower (py_strip line) \<noteq> ''exit'' \<Longrightarrow>
   \<not> py_isdigit (py_strip line) \<Longrightarrow>
   main_iter w fs =
     ([Prompt prompt_text, Print [Lit ''Invalid input. Please enter a numeric Satellite ID.'']],
      fs, Prompting)"
  by (simp add: main_iter_def)

lemma main_iter_retrieve_failed:
  assumes "input_line w = Inr line" and "py_int (py_strip line) = Inr n"
    and "fetch_tle w n = (eff1, Inr tle_data)" and "\<not> truthy tle_data"
  shows "main_iter w fs =
     (Prompt prompt_text # eff1 @ [Print [Lit (''Failed to retrieve TLE data.'' @ [CHR 0x0A])]],
      fs, Prompting)"
  using assms py_int_Inr [OF assms(2)]
  by (simp add: main_iter_def Let_def)

lemma main_iter_calculate_failed:
  assumes "input_line w = Inr line" and "py_int (py_strip line) = Inr n"
    and "fetch_tle w n = (eff1, Inr tle_data)" and "truthy tle_data"
    and "calculate_satellite_position w tle_data = (eff2, Inr None)"
  shows "main_iter w fs =
     (Prompt prompt_text # eff1 @ eff2 @ [Print [Lit ''Failed to calculate satellite position.'']],
      fs, Prompting)"
  using assms py_int_Inr [OF assms(2)]
  by (simp add: main_iter_def Let_def)

lemma main_iter_create_failed:
  assumes "input_line w = Inr line" and "py_int (py_strip line) = Inr n"
    and "fetch_tle w n = (eff1, Inr tle_data)" and "truthy tle_data"
    and "calculate_satellite_position w tle_data = (eff2, Inr (Some (latitude, longitude)))"
    and "dict_get tle_data ''name'' (PyStr ''Unknown Satellite'') = Inr satellite_name"
    and "create_map w latitude longitude satellite_name = (eff3, Inr None)"
  shows "main_iter w fs =
     (Prompt prompt_text # eff1 @ eff2 @ eff3 @ [Print [Lit ''Failed to create the map.'']],
      fs, Prompting)"
  using assms py_int_Inr [OF assms(2)]
  by (simp add: main_iter_def Let_def)


lemma main_iter_Terminated:
  "snd (snd (main_iter w fs)) = Terminated \<Longrightarrow>
   \<exists>line. input_line w = Inr line \<and> py_lower (py_strip line) = ''exit''"
  by (auto simp add: main_iter_def Let_def
      split: sum.splits prod.splits option.splits if_splits)

lemma main_Terminated:
  "snd (snd (main ws fs)) = Terminated \<Longrightarrow>
   \<exists>w \<in> set ws. \<exists>line. input_line w = Inr line \<and> py_lower (py_strip line) = ''exit''"
proof (induction ws arbitrary: fs)
  case Nil
  then show ?case by simp
next
  case (Cons w ws)
  obtain eff fs' st where it: "main_iter w fs = (eff, fs', st)"
    by (cases "main_iter w fs") auto
  show ?case
  proof (cases st)
    case Prompting
    with it Cons.prems have "snd (snd (main ws fs')) = Terminated"
      by (simp split: prod.splits)
    then show ?thesis
      using Cons.IH by auto
  next
    case Terminated
    with it have "snd (snd (main_iter w fs)) = Terminated"
      by simp
    then show ?thesis
      using main_iter_Terminated by auto
  next
    case (Crashed e)
    with it Cons.prems show ?thesis
      by simp
  qed
qed

lemma main_continues:
  "snd (snd (main_iter w fs)) = Prompting \<Longrightarrow> fst (snd (main_iter w fs)) = fs' \<Longrightarrow>
   snd (main (w # ws) fs) = snd (main ws fs')"
  by (cases "main_iter w fs") (auto split: prod.splits)

lemma fetch_tle_pair: "snd (fetch_tle w n) = r \<Longrightarrow> fetch_tle w n = (fst (fetch_tle w n), r)"
  by (cases "fetch_tle w n") simp

lemma calculate_pair:
  "snd (calculate_satellite_position w t) = r \<Longrightarrow>
   calculate_satellite_position w t = (fst (calculate_satellite_position w t), r)"
  by (cases "calculate_satellite_position w t") simp

lemma create_map_pair:
  "snd (create_map w la lo nm) = r \<Longrightarrow> create_map w la lo nm = (fst (create_map w la lo nm), r)"
  by (cases "create_map w la lo nm") simp

lemma py_lower_strip_exit: "py_lower (py_strip ''exit'') = ''exit''"
  by (simp add: py_strip_def py_lower_def isspace_char_def lower_char_def)


lemma truthy_iss_tle: "truthy iss_tle"
  by (simp add: iss_tle_def)


lemma dict_get_iss_tle:
  "dict_get iss_tle ''name'' (PyStr ''Unknown Satellite'') = Inr (PyStr ''ISS (ZARYA)'')"
  by (simp add: iss_tle_def)







lemma http_requests_calculate: "http_requests (fst (calculate_satellite_position w t)) = []"
  by (auto simp add: calculate_satellite_position_def calculate_try_def Let_def http_requests_append
      split: sum.splits option.splits prod.splits if_splits)

lemma http_requests_create_map: "http_requests (fst (create_map w la lo nm)) = []"
  by (auto simp add: create_map_def split: sum.splits if_splits)

lemma main_iter_fetches_parsed_id:
  assumes "input_line w = Inr line" and "py_int (py_strip line) = Inr n"
  shows "http_requests (fst (main_iter w fs)) = [fetch_request n]"
proof -
  have a: "\<And>e. fetch_tle w n = (e, r) \<Longrightarrow> http_requests e = [fetch_request n]" for r
    using http_requests_fetch_tle [of w n] by simp
  have b: "\<And>e. calculate_satellite_position w t = (e, r) \<Longrightarrow> http_requests e = []" for t r
    using http_requests_calculate [of w t] by simp
  have c: "\<And>e. create_map w la lo nm = (e, r) \<Longrightarrow> http_requests e = []" for la lo nm r
    using http_requests_create_map [of w la lo nm] by simp
  show ?thesis
    using assms py_int_Inr [OF assms(2)]
    by (auto simp add: main_iter_def Let_def http_requests_append a b c
        split: sum.splits option.splits prod.splits if_splits)
qed

lemma py_int_decimal:
  "s \<noteq> [] \<Longrightarrow> list_all isdecimal_char s \<Longrightarrow> length s \<le> int_max_str_digits \<Longrightarrow>
   \<exists>n. py_int s = Inr n"
  by (simp add: py_int_def)

lemma py_int_over_limit: "int_max_str_digits < length s \<Longrightarrow> py_int s = Inl ValueError"
  by (simp add: py_int_def)

lemma prompts_append: "prompts (xs @ ys) = prompts xs @ prompts ys"
  by (induction xs rule: prompts.induct) simp_all

lemma prompts_fetch_tle: "prompts (fst (fetch_tle w n)) = []"
  by (auto simp add: fetch_tle_def fetch_tle_try_def Let_def prompts_append
      split: sum.splits option.splits prod.splits)

lemma prompts_calculate: "prompts (fst (calculate_satellite_position w t)) = []"
  by (auto simp add: calculate_satellite_position_def calculate_try_def Let_def prompts_append
      split: sum.splits option.splits prod.splits if_splits)

lemma prompts_create_map: "prompts (fst (create_map w la lo nm)) = []"
  by (auto simp add: create_map_def split: sum.splits if_splits)

lemma main_iter_fetch_escaped:
  assumes "input_line w = Inr line" and "py_int (py_strip line) = Inr n"
    and "fetch_tle w n = (eff1, Inl e)"
  shows "main_iter w fs = (Prompt prompt_text # eff1, fs, Crashed e)"
  using assms py_int_Inr [OF assms(2)]
  by (simp add: main_iter_def Let_def)

lemma main_iter_save_failed:
  assumes "input_line w = Inr line" and "py_int (py_strip line) = Inr n"
    and "fetch_tle w n = (eff1, Inr tle_data)" and "truthy tle_data"
    and "calculate_satellite_position w tle_data = (eff2, Inr (Some (latitude, longitude)))"
    and "dict_get tle_data ''name'' (PyStr ''Unknown Satellite'') = Inr satellite_name"
    and "create_map w latitude longitude satellite_name = (eff3, Inr (Some sat_map))"
    and "save_fault w (map_filename_of n) = Some e"
  shows "main_iter w fs = (Prompt prompt_text # eff1 @ eff2 @ eff3, fs, Crashed e)"
  using assms py_int_Inr [OF assms(2)]
  by (simp add: main_iter_def Let_def)

text \<open>
  C2, at the line whose only character is SUPERSCRIPT TWO (U+00B2): the line is not
  \<open>exit\<close> and is
  not made of decimal digits, yet \<open>isdigit\<close> accepts it, no validation message is
  printed and \<open>int\<close> raises \<open>ValueError\<close>, which leaves \<open>main\<close>. (For every line
  that \<open>isdigit\<close> rejects the message is printed and the loop goes on:
  \<open>main_iter_invalid\<close>.)
\<close>

theorem superscript_two_not_rejected:
  "py_lower (py_strip [CHR 0xB2]) \<noteq> ''exit''
   \<and> \<not> list_all isdecimal_char (py_strip [CHR 0xB2])
   \<and> main_iter (typing [CHR 0xB2] example_world) (\<lambda>f. None)
       = ([Prompt prompt_text], (\<lambda>f. None), Crashed ValueError)"
  by (simp add: main_iter_def typing_def py_strip_def py_lower_def py_isdigit_def py_int_def
      isspace_char_def isdigit_char_def isdecimal_char_def lower_char_def)

text \<open>
  C3, at the input \<open>1\<close> followed by SUPERSCRIPT THREE: the line passes the
  \<open>isdigit\<close> validation, and the parse itself fails with \<open>ValueError\<close>; no fetch
  is made and the exception leaves \<open>main\<close>. (For every line that \<open>int\<close> parses
  the one request issued is the one for the parsed integer:
  \<open>main_iter_fetches_parsed_id\<close>.)
\<close>

theorem superscript_digit_parse_fails:
  "py_isdigit (py_strip [CHR ''1'', CHR 0xB3])
   \<and> py_int (py_strip [CHR ''1'', CHR 0xB3]) = Inl ValueError
   \<and> main_iter (typing [CHR ''1'', CHR 0xB3] example_world) (\<lambda>f. None)
       = ([Prompt prompt_text], (\<lambda>f. None), Crashed ValueError)"
  by (simp add: main_iter_def typing_def py_strip_def py_lower_def py_isdigit_def py_int_def
      isspace_char_def isdigit_char_def isdecimal_char_def lower_char_def)

text \<open>
  C5: a line made of \<open>exit\<close> in any letter case between any whitespace ends the
  loop: the goodbye is printed, the state is \<open>Terminated\<close>, there is no further
  prompt whatever iterations would follow, and no request is issued.
\<close>

theorem exit_terminates_loop:
  assumes "input_line w = Inr (ws1 @ [a, b, c, d] @ ws2)"
    and "list_all isspace_char ws1" and "list_all isspace_char ws2"
    and "a = CHR ''e'' \<or> a = CHR ''E''" and "b = CHR ''x'' \<or> b = CHR ''X''"
    and "c = CHR ''i'' \<or> c = CHR ''I''" and "d = CHR ''t'' \<or> d = CHR ''T''"
  shows "main (w # ws) fs =
           ([Prompt prompt_text, Print [Lit ''Exiting the program. Goodbye!'']], fs, Terminated)
         \<and> prompts (fst (main (w # ws) fs)) = [prompt_text]
         \<and> http_requests (fst (main (w # ws) fs)) = []"
proof -
  have "py_strip (ws1 @ [a, b, c, d] @ ws2) = [a, b, c, d]"
    using assms(2,3,4,7) by (intro py_strip_surrounded) (auto simp add: isspace_char_exit)
  moreover have "py_lower [a, b, c, d] = ''exit''"
    using assms(4-7) by (auto simp add: py_lower_def lower_char_exit)
  ultimately have "main_iter w fs =
      ([Prompt prompt_text, Print [Lit ''Exiting the program. Goodbye!'']], fs, Terminated)"
    using assms(1) by (simp add: main_iter_exit)
  then show ?thesis
    by simp
qed

theorem exit_terminates_loop_witness:
  "main [typing ([CHR 0x09, CHR '' ''] @ [CHR ''E'', CHR ''x'', CHR ''I'', CHR ''t''] @ [CHR '' ''])
           example_world, example_world] (\<lambda>f. None) =
     ([Prompt prompt_text, Print [Lit ''Exiting the program. Goodbye!'']], (\<lambda>f. None), Terminated)"
  using exit_terminates_loop [of "typing ([CHR 0x09, CHR '' ''] @ [CHR ''E'', CHR ''x'', CHR ''I'', CHR ''t''] @ [CHR '' '']) example_world"
      "[CHR 0x09, CHR '' '']" "CHR ''E''" "CHR ''x''" "CHR ''I''" "CHR ''t''" "[CHR '' '']"
      "[example_world]" "\<lambda>f. None"]
  by (simp add: typing_def isspace_char_def)

text \<open>
  C10: when the fetcher returns the empty object, as when it returns \<open>None\<close>,
  the iteration prints \<open>Failed to retrieve TLE data.\<close> after the effects of the fetch
  and does nothing else; the loop stays in \<open>Prompting\<close>.
\<close>

theorem empty_object_treated_as_absent:
  assumes "input_line w = Inr line" and "py_int (py_strip line) = Inr satellite_id"
    and "snd (fetch_tle w satellite_id) = Inr tle_data"
    and "tle_data = PyDict [] \<or> tle_data = PyNone"
  shows "main_iter w fs =
     (Prompt prompt_text # fst (fetch_tle w satellite_id)
        @ [Print [Lit (''Failed to retrieve TLE data.'' @ [CHR 0x0A])]],
      fs, Prompting)"
proof -
  from assms(4) have "\<not> truthy tle_data"
    by auto
  then show ?thesis
    using main_iter_retrieve_failed [OF assms(1,2) fetch_tle_pair [OF assms(3)]] by simp
qed

theorem empty_object_treated_as_absent_witness:
  "main_iter (answering (Inr \<lparr>status_code = 200, json_result = Inr (PyDict [])\<rparr>) example_world) (\<lambda>f. None) =
     (Prompt prompt_text
        # fst (fetch_tle (answering (Inr \<lparr>status_code = 200, json_result = Inr (PyDict [])\<rparr>) example_world) 25544)
        @ [Print [Lit (''Failed to retrieve TLE data.'' @ [CHR 0x0A])]],
      (\<lambda>f. None), Prompting)"
proof -
  let ?w = "answering (Inr \<lparr>status_code = 200, json_result = Inr (PyDict [])\<rparr>) example_world"
  have h1: "input_line ?w = Inr ''25544''"
    by (simp add: answering_def example_world_def)
  have h3: "snd (fetch_tle ?w 25544) = Inr (PyDict [])"
    by (simp add: answering_def snd_fetch_tle_returned fetch_tle_try_json)
  show ?thesis
    using empty_object_treated_as_absent [OF h1 py_int_25544 h3] by simp
qed

text \<open>
  C9, as amended: when the identifier has been parsed and a stage returns absent (the
  fetched value is falsy, the calculation returns \<open>None\<close>, or the map creation
  returns \<open>None\<close>), the iteration ends in \<open>Prompting\<close> with the files unchanged
  and the loop goes on with the next iteration; and the loop ends by \<open>break\<close>
  (state \<open>Terminated\<close>) only when some line read was \<open>exit\<close>.
\<close>

theorem stage_failure_keeps_prompting:
  "(input_line w = Inr line \<and> py_int (py_strip line) = Inr satellite_id
      \<and> snd (fetch_tle w satellite_id) = Inr tle_data
      \<and> (\<not> truthy tle_data
          \<or> snd (calculate_satellite_position w tle_data) = Inr None
          \<or> (\<exists>latitude longitude satellite_name.
               snd (calculate_satellite_position w tle_data) = Inr (Some (latitude, longitude))
               \<and> dict_get tle_data ''name'' (PyStr ''Unknown Satellite'') = Inr satellite_name
               \<and> snd (create_map w latitude longitude satellite_name) = Inr None))
     \<longrightarrow> snd (snd (main_iter w fs)) = Prompting \<and> fst (snd (main_iter w fs)) = fs
         \<and> snd (main (w # ws) fs) = snd (main ws fs))
   \<and> (snd (snd (main us fs')) = Terminated
     \<longrightarrow> (\<exists>u \<in> set us. \<exists>l. input_line u = Inr l \<and> py_lower (py_strip l) = ''exit''))"
proof (intro conjI impI)
  assume a: "input_line w = Inr line \<and> py_int (py_strip line) = Inr satellite_id
      \<and> snd (fetch_tle w satellite_id) = Inr tle_data
      \<and> (\<not> truthy tle_data
          \<or> snd (calculate_satellite_position w tle_data) = Inr None
          \<or> (\<exists>latitude longitude satellite_name.
               snd (calculate_satellite_position w tle_data) = Inr (Some (latitude, longitude))
               \<and> dict_get tle_data ''name'' (PyStr ''Unknown Satellite'') = Inr satellite_name
               \<and> snd (create_map w latitude longitude satellite_name) = Inr None))"
  then have inp: "input_line w = Inr line" and parsed: "py_int (py_strip line) = Inr satellite_id"
    and "snd (fetch_tle w satellite_id) = Inr tle_data"
    by simp_all
  then have fetched: "fetch_tle w satellite_id = (fst (fetch_tle w satellite_id), Inr tle_data)"
    by (intro fetch_tle_pair)
  have it: "snd (snd (main_iter w fs)) = Prompting \<and> fst (snd (main_iter w fs)) = fs"
  proof (cases "truthy tle_data")
    case False
    then show ?thesis
      using main_iter_retrieve_failed [OF inp parsed fetched] by simp
  next
    case True
    with a consider
        (calc) "snd (calculate_satellite_position w tle_data) = Inr None"
      | (render) latitude longitude satellite_name where
          "snd (calculate_satellite_position w tle_data) = Inr (Some (latitude, longitude))"
          "dict_get tle_data ''name'' (PyStr ''Unknown Satellite'') = Inr satellite_name"
          "snd (create_map w latitude longitude satellite_name) = Inr None"
      by blast
    then show ?thesis
    proof cases
      case calc
      then show ?thesis
        using main_iter_calculate_failed [OF inp parsed fetched True calculate_pair] by simp
    next
      case render
      then show ?thesis
        using main_iter_create_failed [OF inp parsed fetched True calculate_pair _ create_map_pair]
        by simp
    qed
  qed
  then show "snd (snd (main_iter w fs)) = Prompting" and "fst (snd (main_iter w fs)) = fs"
    by simp_all
  from it show "snd (main (w # ws) fs) = snd (main ws fs)"
    using main_continues by blast
next
  assume "snd (snd (main us fs')) = Terminated"
  then show "\<exists>u \<in> set us. \<exists>l. input_line u = Inr l \<and> py_lower (py_strip l) = ''exit''"
    by (rule main_Terminated)
qed

theorem stage_failure_keeps_prompting_witness:
  "snd (snd (main_iter (skyfield_raising ValueError example_world) (\<lambda>f. None))) = Prompting
   \<and> snd (snd (main [skyfield_raising ValueError example_world, typing ''exit'' example_world] (\<lambda>f. None)))
       = Terminated
   \<and> (\<exists>u \<in> set [skyfield_raising ValueError example_world, typing ''exit'' example_world].
         \<exists>l. input_line u = Inr l \<and> py_lower (py_strip l) = ''exit'')"
proof -
  let ?w = "skyfield_raising ValueError example_world"
  let ?x = "typing ''exit'' example_world"
  have h1: "input_line ?w = Inr ''25544''"
    by (simp add: skyfield_raising_def example_world_def)
  have h3: "snd (fetch_tle ?w 25544) = Inr iss_tle"
    by (simp add: skyfield_raising_def example_world_def snd_fetch_tle_returned fetch_tle_try_json)
  have h4: "snd (calculate_satellite_position ?w iss_tle) = Inr None"
    by (simp add: calculate_satellite_position_def calculate_try_def skyfield_raising_def
        iss_tle_def isinstance_def)
  have x: "main_iter ?x (\<lambda>f. None) =
      ([Prompt prompt_text, Print [Lit ''Exiting the program. Goodbye!'']], (\<lambda>f. None), Terminated)"
    by (rule main_iter_exit [of _ "''exit''"]) (simp_all add: typing_def py_lower_strip_exit)
  have stage: "snd (snd (main_iter ?w (\<lambda>f. None))) = Prompting
      \<and> snd (main (?w # [?x]) (\<lambda>f. None)) = snd (main [?x] (\<lambda>f. None))"
    using stage_failure_keeps_prompting [of ?w "''25544''" 25544 iss_tle "\<lambda>f. None" "[?x]"] h1 py_int_25544 h3 h4
    by simp
  then have t: "snd (snd (main [?w, ?x] (\<lambda>f. None))) = Terminated"
    using x by simp
  then have "\<exists>u \<in> set [?w, ?x]. \<exists>l. input_line u = Inr l \<and> py_lower (py_strip l) = ''exit''"
    using stage_failure_keeps_prompting [of _ _ _ _ _ _ "[?w, ?x]" "\<lambda>f. None"] by blast
  with stage t show ?thesis
    by blast
qed

text \<open>
  C9 as stated fails: the loop also ends when an exception leaves \<open>main\<close>, with no
  \<open>exit\<close> read. With the line \<open>25544\<close>, a body on which \<open>response.json()\<close>
  raises \<open>ValueError\<close> makes the fetch stage fail with an exception that no clause
  catches, and a \<open>save\<close> that raises \<open>OSError\<close> is not guarded: in both runs the
  state is \<open>Crashed\<close> after one prompt and the \<open>exit\<close> typed next is never read.
\<close>

theorem loop_ends_without_exit_counterexample:
  "input_line (answering (Inr \<lparr>status_code = 200, json_result = Inl ValueError\<rparr>) example_world)
     = Inr ''25544''
   \<and> py_lower (py_strip ''25544'') \<noteq> ''exit''
   \<and> snd (fetch_tle (answering (Inr \<lparr>status_code = 200, json_result = Inl ValueError\<rparr>) example_world) 25544)
     = Inl ValueError
   \<and> snd (snd (main [answering (Inr \<lparr>status_code = 200, json_result = Inl ValueError\<rparr>) example_world,
                     typing ''exit'' example_world] no_files))
     = Crashed ValueError
   \<and> prompts (fst (main [answering (Inr \<lparr>status_code = 200, json_result = Inl ValueError\<rparr>) example_world,
                         typing ''exit'' example_world] no_files))
     = [prompt_text]
   \<and> input_line (save_raising OSError example_world) = Inr ''25544''
   \<and> snd (snd (main [save_raising OSError example_world, typing ''exit'' example_world] no_files))
     = Crashed OSError
   \<and> prompts (fst (main [save_raising OSError example_world, typing ''exit'' example_world] no_files))
     = [prompt_text]"
proof -
  let ?j = "answering (Inr \<lparr>status_code = 200, json_result = Inl ValueError\<rparr>) example_world"
  let ?s = "save_raising OSError example_world"
  have j1: "input_line ?j = Inr ''25544''"
    by (simp add: answering_def example_world_def)
  have j2: "snd (fetch_tle ?j 25544) = Inl ValueError"
    by (simp add: answering_def fetch_tle_def fetch_tle_try_def Let_def raise_for_status_def
        fetch_tle_except_def isinstance_def)
  have j3: "main_iter ?j no_files = (Prompt prompt_text # fst (fetch_tle ?j 25544), no_files, Crashed ValueError)"
    by (rule main_iter_fetch_escaped [OF j1 py_int_25544 fetch_tle_pair [OF j2]])
  have s1: "input_line ?s = Inr ''25544''"
    by (simp add: save_raising_def example_world_def)
  have s2: "snd (fetch_tle ?s 25544) = Inr iss_tle"
    by (simp add: save_raising_def example_world_def snd_fetch_tle_returned fetch_tle_try_json)
  have s3: "snd (calculate_satellite_position ?s iss_tle) = Inr (Some (float_51_50, float_minus_0_12))"
    by (simp add: calculate_satellite_position_def calculate_try_def save_raising_def
        example_world_def iss_tle_def)
  obtain m where s4: "snd (create_map ?s float_51_50 float_minus_0_12 (PyStr ''ISS (ZARYA)'')) = Inr (Some m)"
    by (simp add: create_map_def create_map_try_def save_raising_def example_world_def)
  have s5: "save_fault ?s (map_filename_of 25544) = Some OSError"
    by (simp add: save_raising_def)
  have s6: "main_iter ?s no_files =
      (Prompt prompt_text # fst (fetch_tle ?s 25544) @ fst (calculate_satellite_position ?s iss_tle)
         @ fst (create_map ?s float_51_50 float_minus_0_12 (PyStr ''ISS (ZARYA)'')),
       no_files, Crashed OSError)"
    by (rule main_iter_save_failed [OF s1 py_int_25544 fetch_tle_pair [OF s2] truthy_iss_tle
          calculate_pair [OF s3] dict_get_iss_tle create_map_pair [OF s4] s5])
  have ne: "py_lower (py_strip ''25544'') \<noteq> ''exit''"
    using py_int_Inr(2) [OF py_int_25544] .
  show ?thesis
    using j1 j2 j3 s1 s6 ne
    by (simp add: prompts_append prompts_fetch_tle prompts_calculate prompts_create_map)
qed



end
